theory Spec2Isabelle
  imports Complex_Main "HOL-Library.Char_ord" "HOL-Library.List_Lexorder"
begin

section \<open>The campaign-data hook (src/hooks/useCampaignData.ts)\<close>

text \<open>
  The hook fetches a CSV export, keeps the parsed records, and derives from them and from
  the selected date range a filtered record list, rollup metrics, the top creatives, the
  daily trend series and the span of dates present.  This theory embeds the hook together
  with the parts of the JavaScript runtime and of date-fns that it calls.
\<close>

subsection \<open>JavaScript numbers\<close>

text \<open>
  A Number is NaN, one of the two infinities, or a finite value.  Finite values are kept as
  exact rationals: the rounding of IEEE-754 binary64 arithmetic (and the overflow of a
  finite result to an infinity) is outside this model, and so is the sign of zero.
\<close>

datatype number = NaN | PosInfinity | NegInfinity | Num rat


fun isNaN :: "number \<Rightarrow> bool" where
  "isNaN NaN = True"
| "isNaN _ = False"

text \<open>\<open>a + b\<close>\<close>

fun num_add :: "number \<Rightarrow> number \<Rightarrow> number" where
  "num_add NaN _ = NaN"
| "num_add _ NaN = NaN"
| "num_add PosInfinity NegInfinity = NaN"
| "num_add NegInfinity PosInfinity = NaN"
| "num_add PosInfinity _ = PosInfinity"
| "num_add NegInfinity _ = NegInfinity"
| "num_add _ PosInfinity = PosInfinity"
| "num_add _ NegInfinity = NegInfinity"
| "num_add (Num a) (Num b) = Num (a + b)"

text \<open>\<open>-a\<close> and \<open>a - b\<close>\<close>

fun num_neg :: "number \<Rightarrow> number" where
  "num_neg NaN = NaN"
| "num_neg PosInfinity = NegInfinity"
| "num_neg NegInfinity = PosInfinity"
| "num_neg (Num a) = Num (- a)"

definition num_sub :: "number \<Rightarrow> number \<Rightarrow> number" where
  "num_sub a b = num_add a (num_neg b)"

text \<open>\<open>a * b\<close>\<close>

fun num_sign :: "number \<Rightarrow> int" where
  "num_sign NaN = 0"
| "num_sign PosInfinity = 1"
| "num_sign NegInfinity = - 1"
| "num_sign (Num a) = (if a < 0 then - 1 else if a = 0 then 0 else 1)"

definition signed_infinity :: "int \<Rightarrow> number" where
  "signed_infinity s = (if s = 0 then NaN else if s < 0 then NegInfinity else PosInfinity)"

fun num_mul :: "number \<Rightarrow> number \<Rightarrow> number" where
  "num_mul NaN _ = NaN"
| "num_mul _ NaN = NaN"
| "num_mul (Num a) (Num b) = Num (a * b)"
| "num_mul a b = signed_infinity (num_sign a * num_sign b)"

text \<open>\<open>a / b\<close>: a finite value over zero is an infinity, zero over zero is NaN.\<close>

fun num_div :: "number \<Rightarrow> number \<Rightarrow> number" where
  "num_div NaN _ = NaN"
| "num_div _ NaN = NaN"
| "num_div (Num a) (Num b) = (if b = 0 then signed_infinity (num_sign (Num a)) else Num (a / b))"
| "num_div (Num a) _ = Num 0"
| "num_div a (Num b) = signed_infinity (num_sign a * (if b < 0 then - 1 else 1))"
| "num_div _ _ = NaN"

text \<open>\<open>a > b\<close>: false as soon as one side is NaN.\<close>

fun num_gt :: "number \<Rightarrow> number \<Rightarrow> bool" where
  "num_gt NaN _ = False"
| "num_gt _ NaN = False"
| "num_gt PosInfinity b = (b \<noteq> PosInfinity)"
| "num_gt NegInfinity _ = False"
| "num_gt (Num a) PosInfinity = False"
| "num_gt (Num a) NegInfinity = True"
| "num_gt (Num a) (Num b) = (a > b)"

text \<open>ToIntegerOrInfinity on a finite value: truncation towards zero.\<close>

definition truncate_rat :: "rat \<Rightarrow> int" where
  "truncate_rat q = (if q < 0 then \<lceil>q\<rceil> else \<lfloor>q\<rfloor>)"

subsection \<open>Strings: \<open>split\<close> and the conversion to a number\<close>

text \<open>
  A JavaScript string whose code units are all below 256 is the list of those code units.
  \<open>s.split(c)\<close> with a one-character separator: the pieces between the separators, so
  a string with \<open>n\<close> separators has \<open>n + 1\<close> pieces and the empty string has one.
\<close>

fun split :: "char \<Rightarrow> string \<Rightarrow> string list" where
  "split c [] = [[]]"
| "split c (x # xs) =
     (if x = c then [] # split c xs
      else (case split c xs of [] \<Rightarrow> [[x]] | p # ps \<Rightarrow> (x # p) # ps))"

definition isStrWhiteSpaceChar :: "char \<Rightarrow> bool" where
  "isStrWhiteSpaceChar c \<longleftrightarrow>
     (of_char c :: nat) \<in> {0x09, 0x0A, 0x0B, 0x0C, 0x0D, 0x20, 0xA0}"

definition trimString :: "string \<Rightarrow> string" where
  "trimString s = rev (dropWhile isStrWhiteSpaceChar (rev (dropWhile isStrWhiteSpaceChar s)))"

definition isDecimalDigit :: "char \<Rightarrow> bool" where
  "isDecimalDigit c \<longleftrightarrow> CHR ''0'' \<le> c \<and> c \<le> CHR ''9''"

text \<open>The value of a digit in a base up to 16, None when it is no digit of that base.\<close>

definition digitValue :: "nat \<Rightarrow> char \<Rightarrow> nat option" where
  "digitValue b c =
     (let v = (if CHR ''0'' \<le> c \<and> c \<le> CHR ''9'' then Some (of_char c - 48)
               else if CHR ''a'' \<le> c \<and> c \<le> CHR ''f'' then Some (of_char c - 87)
               else if CHR ''A'' \<le> c \<and> c \<le> CHR ''F'' then Some (of_char c - 55)
               else None)
      in case v of None \<Rightarrow> None | Some n \<Rightarrow> if n < b then Some n else None)"

definition digitsValue :: "nat \<Rightarrow> string \<Rightarrow> nat" where
  "digitsValue b ds = foldl (\<lambda>a c. b * a + (case digitValue b c of None \<Rightarrow> 0 | Some v \<Rightarrow> v)) 0 ds"

definition isDigits :: "nat \<Rightarrow> string \<Rightarrow> bool" where
  "isDigits b ds \<longleftrightarrow> ds \<noteq> [] \<and> list_all (\<lambda>c. digitValue b c \<noteq> None) ds"

definition pow10 :: "int \<Rightarrow> rat" where
  "pow10 k = (if 0 \<le> k then 10 ^ nat k else 1 / 10 ^ nat (- k))"

text \<open>NonDecimalIntegerLiteral after its prefix \<open>0x\<close>, \<open>0o\<close> or \<open>0b\<close>.\<close>

definition nonDecimalLiteral :: "nat \<Rightarrow> string \<Rightarrow> number" where
  "nonDecimalLiteral b ds = (if isDigits b ds then Num (of_nat (digitsValue b ds)) else NaN)"

text \<open>
  ExponentPart (optional) after the mantissa digits \<open>ip\<close> and the fraction digits
  \<open>fp\<close>.
\<close>

definition exponentPart :: "string \<Rightarrow> string \<Rightarrow> string \<Rightarrow> number" where
  "exponentPart ip fp r =
     (let mant = of_nat (digitsValue 10 (ip @ fp)) :: rat;
          scale = - int (length fp)
      in case r of
           [] \<Rightarrow> Num (mant * pow10 scale)
         | e # r' \<Rightarrow>
             if e = CHR ''e'' \<or> e = CHR ''E'' then
               (case r' of
                  [] \<Rightarrow> NaN
                | s # ds \<Rightarrow>
                    if s = CHR ''-'' then
                      (if isDigits 10 ds
                       then Num (mant * pow10 (scale - int (digitsValue 10 ds))) else NaN)
                    else if s = CHR ''+'' then
                      (if isDigits 10 ds
                       then Num (mant * pow10 (scale + int (digitsValue 10 ds))) else NaN)
                    else
                      (if isDigits 10 r'
                       then Num (mant * pow10 (scale + int (digitsValue 10 r'))) else NaN))
             else NaN)"

text \<open>StrUnsignedDecimalLiteral\<close>

definition unsignedDecimalLiteral :: "string \<Rightarrow> number" where
  "unsignedDecimalLiteral u =
     (if u = ''Infinity'' then PosInfinity
      else
        (let ip = takeWhile isDecimalDigit u; r1 = dropWhile isDecimalDigit u
         in case r1 of
              [] \<Rightarrow> if ip = [] then NaN else exponentPart ip [] []
            | c # r \<Rightarrow>
                if c = CHR ''.'' then
                  (let fp = takeWhile isDecimalDigit r; r2 = dropWhile isDecimalDigit r
                   in if ip = [] \<and> fp = [] then NaN else exponentPart ip fp r2)
                else if ip = [] then NaN
                else exponentPart ip [] r1))"

text \<open>
  StringToNumber, which is what \<open>Number(s)\<close> does on a string: white space is trimmed,
  the empty string is 0, and a string that is no numeric literal is NaN.
\<close>

definition StringToNumber :: "string \<Rightarrow> number" where
  "StringToNumber s =
     (let t = trimString s
      in case t of
           [] \<Rightarrow> Num 0
         | c # r \<Rightarrow>
             if c = CHR ''0'' \<and> r \<noteq> [] \<and> hd r \<in> {CHR ''x'', CHR ''X''}
               then nonDecimalLiteral 16 (tl r)
             else if c = CHR ''0'' \<and> r \<noteq> [] \<and> hd r \<in> {CHR ''o'', CHR ''O''}
               then nonDecimalLiteral 8 (tl r)
             else if c = CHR ''0'' \<and> r \<noteq> [] \<and> hd r \<in> {CHR ''b'', CHR ''B''}
               then nonDecimalLiteral 2 (tl r)
             else if c = CHR ''+'' then unsignedDecimalLiteral r
             else if c = CHR ''-'' then num_neg (unsignedDecimalLiteral r)
             else unsignedDecimalLiteral t)"

subsection \<open>Time values and the calendar (ECMAScript, Time Values and Time Range)\<close>

text \<open>
  A time value is a whole number of milliseconds since the epoch, in UTC.  The day number
  and the calendar fields of a time value are ECMAScript's: \<open>Day\<close>,
  \<open>DaysInYear\<close>, \<open>DayFromYear\<close>, \<open>YearFromTime\<close>, \<open>MonthFromTime\<close>,
  \<open>DateFromTime\<close>.
\<close>

definition msPerDay :: int where
  "msPerDay = 86400000"

definition msPerHour :: int where
  "msPerHour = 3600000"

definition msPerMinute :: int where
  "msPerMinute = 60000"

definition msPerSecond :: int where
  "msPerSecond = 1000"

definition Day :: "int \<Rightarrow> int" where
  "Day t = t div msPerDay"

definition TimeWithinDay :: "int \<Rightarrow> int" where
  "TimeWithinDay t = t mod msPerDay"

definition DaysInYear :: "int \<Rightarrow> int" where
  "DaysInYear y =
     (if y mod 4 \<noteq> 0 then 365
      else if y mod 100 \<noteq> 0 then 366
      else if y mod 400 \<noteq> 0 then 365
      else 366)"

definition DayFromYear :: "int \<Rightarrow> int" where
  "DayFromYear y =
     365 * (y - 1970) + (y - 1969) div 4 - (y - 1901) div 100 + (y - 1601) div 400"

text \<open>
  The year of a day number: ECMAScript asks for the largest \<open>y\<close> with
  \<open>DayFromYear y \<le> d\<close>.  It is computed from the mean length of a Gregorian year
  (146097 days in 400 years), which is at most one year off, and then adjusted.
\<close>

definition YearFromDay :: "int \<Rightarrow> int" where
  "YearFromDay d =
     (let y = 1970 + (400 * d) div 146097
      in if d < DayFromYear y then y - 1
         else if DayFromYear (y + 1) \<le> d then y + 1
         else y)"

definition YearFromTime :: "int \<Rightarrow> int" where
  "YearFromTime t = YearFromDay (Day t)"

definition DayWithinYear :: "int \<Rightarrow> int" where
  "DayWithinYear t = Day t - DayFromYear (YearFromTime t)"

definition InLeapYear :: "int \<Rightarrow> int" where
  "InLeapYear t = (if DaysInYear (YearFromTime t) = 365 then 0 else 1)"

text \<open>
  The day within the year on which month \<open>m\<close> (0 to 11) starts, \<open>leap\<close> being 1 in
  a leap year; for \<open>m = 12\<close>, the length of the year.
\<close>

definition monthStart :: "int \<Rightarrow> int \<Rightarrow> int" where
  "monthStart leap m =
     (if m \<le> 0 then 0
      else if m = 1 then 31
      else if m = 2 then 59 + leap
      else if m = 3 then 90 + leap
      else if m = 4 then 120 + leap
      else if m = 5 then 151 + leap
      else if m = 6 then 181 + leap
      else if m = 7 then 212 + leap
      else if m = 8 then 243 + leap
      else if m = 9 then 273 + leap
      else if m = 10 then 304 + leap
      else if m = 11 then 334 + leap
      else 365 + leap)"

definition MonthFromTime :: "int \<Rightarrow> int" where
  "MonthFromTime t =
     (let d = DayWithinYear t; leap = InLeapYear t
      in if d < 31 then 0
         else if d < 59 + leap then 1
         else if d < 90 + leap then 2
         else if d < 120 + leap then 3
         else if d < 151 + leap then 4
         else if d < 181 + leap then 5
         else if d < 212 + leap then 6
         else if d < 243 + leap then 7
         else if d < 273 + leap then 8
         else if d < 304 + leap then 9
         else if d < 334 + leap then 10
         else 11)"

definition DateFromTime :: "int \<Rightarrow> int" where
  "DateFromTime t =
     (let d = DayWithinYear t; leap = InLeapYear t; m = MonthFromTime t
      in if m = 0 then d + 1
         else if m = 1 then d - 30
         else if m = 2 then d - 58 - leap
         else if m = 3 then d - 89 - leap
         else if m = 4 then d - 119 - leap
         else if m = 5 then d - 150 - leap
         else if m = 6 then d - 180 - leap
         else if m = 7 then d - 211 - leap
         else if m = 8 then d - 242 - leap
         else if m = 9 then d - 272 - leap
         else if m = 10 then d - 303 - leap
         else d - 333 - leap)"





text \<open>
  The host's time zone is a fixed offset \<open>tza\<close> from UTC in milliseconds (positive
  east of Greenwich); daylight-saving transitions are outside this model.
\<close>

definition LocalTime :: "int \<Rightarrow> int \<Rightarrow> int" where
  "LocalTime tza t = t + tza"

definition UTC :: "int \<Rightarrow> int \<Rightarrow> int" where
  "UTC tza t = t - tza"

text \<open>
  \<open>MakeTime\<close>, \<open>MakeDay\<close>, \<open>MakeDate\<close> and \<open>TimeClip\<close>; None is NaN.  An
  argument that is not finite gives NaN, a finite one is truncated to an integer.
\<close>

fun toInteger :: "number \<Rightarrow> int option" where
  "toInteger (Num q) = Some (truncate_rat q)"
| "toInteger _ = None"

definition MakeTime :: "number \<Rightarrow> number \<Rightarrow> number \<Rightarrow> number \<Rightarrow> int option" where
  "MakeTime hour minute sec ms =
     (case (toInteger hour, toInteger minute, toInteger sec, toInteger ms) of
        (Some h, Some m, Some s, Some milli) \<Rightarrow>
          Some (h * msPerHour + m * msPerMinute + s * msPerSecond + milli)
      | _ \<Rightarrow> None)"

definition MakeDay :: "number \<Rightarrow> number \<Rightarrow> number \<Rightarrow> int option" where
  "MakeDay year month date =
     (case (toInteger year, toInteger month, toInteger date) of
        (Some y, Some m, Some dt) \<Rightarrow>
          (let ym = y + m div 12; mn = m mod 12;
               leap = (if DaysInYear ym = 365 then 0 else 1)
           in Some (DayFromYear ym + monthStart leap mn + dt - 1))
      | _ \<Rightarrow> None)"

definition MakeDate :: "int option \<Rightarrow> int option \<Rightarrow> int option" where
  "MakeDate day time =
     (case (day, time) of
        (Some d, Some tm) \<Rightarrow> Some (d * msPerDay + tm)
      | _ \<Rightarrow> None)"

subsection \<open>Date objects\<close>

text \<open>A Date holds a time value, or NaN (an invalid date).\<close>

datatype Date = InvalidDate | DateAt int

definition TimeClip :: "int option \<Rightarrow> Date" where
  "TimeClip time =
     (case time of
        None \<Rightarrow> InvalidDate
      | Some t \<Rightarrow> if \<bar>t\<bar> > 8640000000000000 then InvalidDate else DateAt t)"

text \<open>\<open>d.getTime()\<close>\<close>

fun getTime :: "Date \<Rightarrow> number" where
  "getTime InvalidDate = NaN"
| "getTime (DateAt t) = Num (of_int t)"

text \<open>\<open>d.getDate()\<close>: the day of the month in local time.\<close>

fun getDate :: "int \<Rightarrow> Date \<Rightarrow> number" where
  "getDate tza InvalidDate = NaN"
| "getDate tza (DateAt t) = Num (of_int (DateFromTime (LocalTime tza t)))"

text \<open>
  \<open>new Date(year, month, day)\<close>: the fields are read in local time, and a year from 0
  to 99 stands for 1900 to 1999.
\<close>

definition newDate_ymd :: "int \<Rightarrow> number \<Rightarrow> number \<Rightarrow> number \<Rightarrow> Date" where
  "newDate_ymd tza year month day =
     (let yr = (case toInteger year of
                  None \<Rightarrow> year
                | Some yi \<Rightarrow> if 0 \<le> yi \<and> yi \<le> 99 then Num (of_int (1900 + yi)) else year)
      in TimeClip (map_option (UTC tza)
           (MakeDate (MakeDay yr month day) (MakeTime (Num 0) (Num 0) (Num 0) (Num 0)))))"

text \<open>\<open>d.setDate(n)\<close>: the new state of \<open>d\<close>.\<close>

fun setDate :: "int \<Rightarrow> Date \<Rightarrow> number \<Rightarrow> Date" where
  "setDate tza InvalidDate n = InvalidDate"
| "setDate tza (DateAt u) n =
     (let t = LocalTime tza u
      in TimeClip (map_option (UTC tza)
           (MakeDate (MakeDay (Num (of_int (YearFromTime t))) (Num (of_int (MonthFromTime t))) n)
              (Some (TimeWithinDay t)))))"

text \<open>\<open>d.setHours(h, m, s, ms)\<close>: the new state of \<open>d\<close>.\<close>

fun setHours :: "int \<Rightarrow> Date \<Rightarrow> number \<Rightarrow> number \<Rightarrow> number \<Rightarrow> number \<Rightarrow> Date" where
  "setHours tza InvalidDate h m s ms = InvalidDate"
| "setHours tza (DateAt u) h m s ms =
     (let t = LocalTime tza u
      in TimeClip (map_option (UTC tza) (MakeDate (Some (Day t)) (MakeTime h m s ms))))"

subsection \<open>date-fns: \<open>addDays\<close>, \<open>subDays\<close>, \<open>startOfDay\<close>, \<open>endOfDay\<close>\<close>

text \<open>
  Each works on a copy of its argument.  \<open>addDays\<close> returns an invalid date for a NaN
  amount and the copy itself for the amount 0; otherwise it moves the day of the month
  with \<open>setDate\<close>.
\<close>

definition addDays :: "int \<Rightarrow> Date \<Rightarrow> number \<Rightarrow> Date" where
  "addDays tza date amount =
     (if isNaN amount then InvalidDate
      else if amount = Num 0 then date
      else setDate tza date (num_add (getDate tza date) amount))"

definition subDays :: "int \<Rightarrow> Date \<Rightarrow> number \<Rightarrow> Date" where
  "subDays tza date amount = addDays tza date (num_neg amount)"

definition startOfDay :: "int \<Rightarrow> Date \<Rightarrow> Date" where
  "startOfDay tza date = setHours tza date (Num 0) (Num 0) (Num 0) (Num 0)"

definition endOfDay :: "int \<Rightarrow> Date \<Rightarrow> Date" where
  "endOfDay tza date = setHours tza date (Num 23) (Num 59) (Num 59) (Num 999)"

subsection \<open>The local-date normalizer\<close>

text \<open>
  \<open>const [year, month, day] = dateStr.split('-').map(Number)\<close>: a component that the
  split does not yield is \<open>undefined\<close>, which arithmetic and the Date constructor read
  as NaN.
\<close>

definition component :: "number list \<Rightarrow> nat \<Rightarrow> number" where
  "component parts i = (if i < length parts then parts ! i else NaN)"

definition parseLocalDate :: "int \<Rightarrow> string \<Rightarrow> Date" where
  "parseLocalDate tza dateStr =
     (let parts = map StringToNumber (split CHR ''-'' dateStr);
          year = component parts 0; month = component parts 1; day = component parts 2
      in newDate_ymd tza year (num_sub month (Num 1)) day)"

text \<open>
  For stating what the normalizer does on a calendar date: a string of the form
  \<open>YYYY-MM-DD\<close> (four digits, two digits, two digits), its three components as
  numbers, and the validity of the components in the proleptic Gregorian calendar.
\<close>

definition isDateString :: "string \<Rightarrow> bool" where
  "isDateString s \<longleftrightarrow>
     length s = 10 \<and> s ! 4 = CHR ''-'' \<and> s ! 7 = CHR ''-'' \<and>
     list_all isDecimalDigit (take 4 s) \<and>
     list_all isDecimalDigit (take 2 (drop 5 s)) \<and>
     list_all isDecimalDigit (drop 8 s)"

definition yearOf :: "string \<Rightarrow> int" where
  "yearOf s = int (digitsValue 10 (take 4 s))"

definition monthOf :: "string \<Rightarrow> int" where
  "monthOf s = int (digitsValue 10 (take 2 (drop 5 s)))"

definition dayOf :: "string \<Rightarrow> int" where
  "dayOf s = int (digitsValue 10 (drop 8 s))"




subsection \<open>The record types\<close>

text \<open>
  Modelled from the spec: the \<open>CampaignData\<close> type of \<open>lib/csvParser\<close>, which is not
  among the sources.  A record's date is a \<open>YYYY-MM-DD\<close> string or an already resolved
  Date; its measures are numbers; it names its creative and its campaign.
\<close>

datatype dateValue = DateString string | DateObject Date

record CampaignData =
  date :: dateValue
  spend :: number
  conversions :: number
  reach :: number
  impressions :: number
  engagement :: number
  creativeId :: string
  campaign :: string

text \<open>\<open>interface DateRange { from: Date; to: Date }\<close>\<close>

record DateRange =
  range_from :: Date
  range_to :: Date

text \<open>
  \<open>interface DashboardMetrics\<close>: the five sums that \<open>aggregateMetrics\<close> returns,
  spread into the result, and the two ratios.
\<close>

record Aggregate =
  totalSpend :: number
  totalConversions :: number
  totalReach :: number
  totalImpressions :: number
  totalEngagement :: number

record DashboardMetrics = Aggregate +
  avgCPA :: number
  ctr :: number

text \<open>The value of \<open>availableDateRange\<close>; None in a field is \<open>undefined\<close>.\<close>

record AvailableDateRange =
  range_min :: "Date option"
  range_max :: "Date option"

text \<open>
  Modelled from the spec: the \<open>AdPerformance\<close> type of \<open>lib/csvParser\<close>, one creative's
  measures summed over the window.
\<close>

record AdPerformance =
  adId :: string
  adSpend :: number
  adConversions :: number
  adReach :: number
  adImpressions :: number
  adEngagement :: number

subsection \<open>The helpers of \<open>lib/csvParser\<close>\<close>

text \<open>\<open>a <= b\<close> on numbers: false as soon as one side is NaN.\<close>

definition num_le :: "number \<Rightarrow> number \<Rightarrow> bool" where
  "num_le a b \<longleftrightarrow> \<not> isNaN a \<and> \<not> isNaN b \<and> \<not> num_gt a b"

text \<open>\<open>new Date(value)\<close> for a value that is a Date: a copy with the same time value.\<close>

fun newDate_copy :: "Date \<Rightarrow> Date" where
  "newDate_copy InvalidDate = InvalidDate"
| "newDate_copy (DateAt t) = TimeClip (Some t)"

text \<open>
  The normalization of a record's date, as \<open>availableDateRange\<close> writes it:
  \<open>typeof d.date === 'string' ? parseLocalDate(d.date) : new Date(d.date)\<close>.
\<close>

definition normalizeDate :: "int \<Rightarrow> dateValue \<Rightarrow> Date" where
  "normalizeDate tza v =
     (case v of DateString s \<Rightarrow> parseLocalDate tza s | DateObject d \<Rightarrow> newDate_copy d)"

text \<open>
  Modelled from the spec: \<open>filterByDateRange\<close> of \<open>lib/csvParser\<close> (Range Filter): the
  records with \<open>from \<le> record.date \<le> to\<close>, compared as instants, in their original
  order; the record's date is normalized as above.
\<close>

definition filterByDateRange :: "int \<Rightarrow> CampaignData list \<Rightarrow> Date \<Rightarrow> Date \<Rightarrow> CampaignData list" where
  "filterByDateRange tza records from_d to_d =
     filter (\<lambda>r. num_le (getTime from_d) (getTime (normalizeDate tza (date r))) \<and>
                 num_le (getTime (normalizeDate tza (date r))) (getTime to_d)) records"

text \<open>
  Modelled from the spec: \<open>aggregateMetrics\<close> of \<open>lib/csvParser\<close> (Aggregator): the sum
  of each measure over the records, 0 for no record.
\<close>

definition sumOf :: "(CampaignData \<Rightarrow> number) \<Rightarrow> CampaignData list \<Rightarrow> number" where
  "sumOf f records = foldl (\<lambda>acc r. num_add acc (f r)) (Num 0) records"

definition aggregateMetrics :: "CampaignData list \<Rightarrow> Aggregate" where
  "aggregateMetrics records =
     \<lparr> totalSpend = sumOf spend records,
       totalConversions = sumOf conversions records,
       totalReach = sumOf reach records,
       totalImpressions = sumOf impressions records,
       totalEngagement = sumOf engagement records \<rparr>"

text \<open>
  Modelled from the spec: \<open>getTopCreatives\<close> of \<open>lib/csvParser\<close> (Top-Creative Ranker):
  the records are grouped by creative, each creative's measures are summed, and the first
  \<open>n\<close> creatives are returned in descending order of the ranking key, ties broken by the
  identifier.  The spec leaves the ranking key open, so it is the parameter \<open>rankKey\<close>.
\<close>

definition newAd :: "CampaignData \<Rightarrow> AdPerformance" where
  "newAd r =
     \<lparr> adId = creativeId r, adSpend = spend r, adConversions = conversions r,
       adReach = reach r, adImpressions = impressions r, adEngagement = engagement r \<rparr>"

definition addToAd :: "AdPerformance \<Rightarrow> CampaignData \<Rightarrow> AdPerformance" where
  "addToAd a r =
     a\<lparr> adSpend := num_add (adSpend a) (spend r),
        adConversions := num_add (adConversions a) (conversions r),
        adReach := num_add (adReach a) (reach r),
        adImpressions := num_add (adImpressions a) (impressions r),
        adEngagement := num_add (adEngagement a) (engagement r) \<rparr>"

fun addRecord :: "CampaignData \<Rightarrow> AdPerformance list \<Rightarrow> AdPerformance list" where
  "addRecord r [] = [newAd r]"
| "addRecord r (a # as) =
     (if adId a = creativeId r then addToAd a r # as else a # addRecord r as)"

definition groupByCreative :: "CampaignData list \<Rightarrow> AdPerformance list" where
  "groupByCreative records = foldl (\<lambda>acc r. addRecord r acc) [] records"

definition ranksBefore :: "(AdPerformance \<Rightarrow> 'k::linorder) \<Rightarrow> AdPerformance \<Rightarrow> AdPerformance \<Rightarrow> bool" where
  "ranksBefore rankKey a b \<longleftrightarrow>
     rankKey a > rankKey b \<or> (rankKey a = rankKey b \<and> adId a \<le> adId b)"

fun insertRanked :: "(AdPerformance \<Rightarrow> 'k::linorder) \<Rightarrow> AdPerformance \<Rightarrow> AdPerformance list \<Rightarrow> AdPerformance list" where
  "insertRanked rankKey a [] = [a]"
| "insertRanked rankKey a (b # bs) =
     (if ranksBefore rankKey a b then a # b # bs else b # insertRanked rankKey a bs)"

definition sortRanked :: "(AdPerformance \<Rightarrow> 'k::linorder) \<Rightarrow> AdPerformance list \<Rightarrow> AdPerformance list" where
  "sortRanked rankKey as = foldr (insertRanked rankKey) as []"

definition getTopCreatives :: "(AdPerformance \<Rightarrow> 'k::linorder) \<Rightarrow> CampaignData list \<Rightarrow> nat \<Rightarrow> AdPerformance list" where
  "getTopCreatives rankKey records n = take n (sortRanked rankKey (groupByCreative records))"

subsection \<open>The hook's state and \<open>fetchData\<close>\<close>

text \<open>
  The four \<open>useState\<close> cells.  Their initial values are \<open>[]\<close>, \<open>true\<close>, \<open>null\<close> and
  \<open>null\<close>.
\<close>

record hookState =
  rawData :: "CampaignData list"
  loading :: bool
  error :: "string option"
  dateRange :: "DateRange option"

definition initialState :: hookState where
  "initialState = \<lparr> rawData = [], loading = True, error = None, dateRange = None \<rparr>"

text \<open>
  What a \<open>throw\<close> carries: an \<open>Error\<close> with its message, or any other value.  The catch
  clause turns it into \<open>err instanceof Error ? err.message : 'Unknown error'\<close>.
\<close>

datatype thrown = ErrorObject string | OtherValue

fun errorMessage :: "thrown \<Rightarrow> string" where
  "errorMessage (ErrorObject msg) = msg"
| "errorMessage OtherValue = ''Unknown error''"

text \<open>
  What \<open>await fetch(CSV_URL)\<close> gives: it throws (a network failure), or it resolves to a
  response with its \<open>ok\<close> flag and the outcome of \<open>await response.text()\<close>.
\<close>

record response =
  ok :: bool
  body_text :: "thrown + string"

text \<open>
  The body of the \<open>try\<close> block, from the state it starts in: the state when it ends, and
  what it threw, if it did.  \<open>parseCSV\<close> (of \<open>lib/csvParser\<close>, not among the sources) is
  a parameter: it returns the records or throws.  \<open>now\<close> is the time value of
  \<open>new Date()\<close>.
\<close>

definition tryBody ::
  "(string \<Rightarrow> thrown + CampaignData list) \<Rightarrow> int \<Rightarrow> int \<Rightarrow> thrown + response \<Rightarrow> hookState
     \<Rightarrow> hookState \<times> thrown option" where
  "tryBody parseCSV tza now fetched s0 =
     (let s1 = s0\<lparr>loading := True\<rparr>
      in case fetched of
           Inl err \<Rightarrow> (s1, Some err)
         | Inr resp \<Rightarrow>
             if \<not> ok resp then (s1, Some (ErrorObject ''Failed to fetch data''))
             else
               (case body_text resp of
                  Inl err \<Rightarrow> (s1, Some err)
                | Inr txt \<Rightarrow>
                    (case parseCSV txt of
                       Inl err \<Rightarrow> (s1, Some err)
                     | Inr parsed \<Rightarrow>
                         (let s2 = s1\<lparr>rawData := parsed\<rparr>;
                              s3 = (if length parsed > 0 then
                                      (let to_d = endOfDay tza (subDays tza (DateAt now) (Num 1));
                                           from_d = startOfDay tza (subDays tza to_d (Num 6))
                                       in s2\<lparr>dateRange :=
                                                Some \<lparr>range_from = from_d, range_to = to_d\<rparr>\<rparr>)
                                    else s2)
                          in (s3\<lparr>error := None\<rparr>, None)))))"

text \<open>\<open>fetchData\<close>: the \<open>try\<close> block, the \<open>catch\<close> clause and the \<open>finally\<close> clause.\<close>

definition fetchData ::
  "(string \<Rightarrow> thrown + CampaignData list) \<Rightarrow> int \<Rightarrow> int \<Rightarrow> thrown + response \<Rightarrow> hookState
     \<Rightarrow> hookState" where
  "fetchData parseCSV tza now fetched s0 =
     (let (s, exn) = tryBody parseCSV tza now fetched s0;
          s' = (case exn of None \<Rightarrow> s | Some err \<Rightarrow> s\<lparr>error := Some (errorMessage err)\<rparr>)
      in s'\<lparr>loading := False\<rparr>)"

subsection \<open>The derived views\<close>

definition filteredData :: "int \<Rightarrow> CampaignData list \<Rightarrow> DateRange option \<Rightarrow> CampaignData list" where
  "filteredData tza raw dr =
     (case dr of
        None \<Rightarrow> []
      | Some r \<Rightarrow> filterByDateRange tza raw (range_from r) (range_to r))"

text \<open>The two ratios of \<open>metrics\<close>, from the aggregate.\<close>

definition metricsOf :: "Aggregate \<Rightarrow> DashboardMetrics" where
  "metricsOf agg =
     (let cpa = (if num_gt (totalConversions agg) (Num 0)
                 then num_div (totalSpend agg) (totalConversions agg) else Num 0);
          rate = (if num_gt (totalImpressions agg) (Num 0)
                  then num_mul (num_div (totalEngagement agg) (totalImpressions agg)) (Num 100)
                  else Num 0)
      in Aggregate.extend agg (DashboardMetrics.fields cpa rate))"

definition metrics :: "CampaignData list \<Rightarrow> DashboardMetrics" where
  "metrics filtered = metricsOf (aggregateMetrics filtered)"

definition topCreatives :: "(AdPerformance \<Rightarrow> 'k::linorder) \<Rightarrow> CampaignData list \<Rightarrow> AdPerformance list" where
  "topCreatives rankKey filtered = getTopCreatives rankKey filtered 6"

text \<open>
  \<open>getCampaignTrends\<close> (of \<open>lib/csvParser\<close>, not among the sources) is a parameter: it
  gets the filtered records and the range's \<open>to\<close>.
\<close>

definition campaignTrends ::
  "(CampaignData list \<Rightarrow> Date \<Rightarrow> 'trend list) \<Rightarrow> CampaignData list \<Rightarrow> DateRange option \<Rightarrow> 'trend list" where
  "campaignTrends getCampaignTrends filtered dr =
     (case dr of
        None \<Rightarrow> []
      | Some r \<Rightarrow> getCampaignTrends filtered (range_to r))"

text \<open>
  \<open>dates.sort((a, b) => a.getTime() - b.getTime())\<close>: the comparator is consistent on
  dates with a time value, so the result is the stable ascending sort, whichever
  algorithm the engine runs; it is written as an insertion sort.
\<close>

definition compareTime :: "Date \<Rightarrow> Date \<Rightarrow> number" where
  "compareTime a b = num_sub (getTime a) (getTime b)"

fun insertDate :: "Date \<Rightarrow> Date list \<Rightarrow> Date list" where
  "insertDate a [] = [a]"
| "insertDate a (b # bs) =
     (if num_gt (compareTime a b) (Num 0) then b # insertDate a bs else a # b # bs)"

definition sortDates :: "Date list \<Rightarrow> Date list" where
  "sortDates ds = foldr insertDate ds []"

text \<open>\<open>xs[i]\<close>: \<open>undefined\<close> outside the array.\<close>

definition element :: "'a list \<Rightarrow> int \<Rightarrow> 'a option" where
  "element xs i = (if 0 \<le> i \<and> i < int (length xs) then Some (xs ! nat i) else None)"

definition availableDateRange :: "int \<Rightarrow> CampaignData list \<Rightarrow> AvailableDateRange option" where
  "availableDateRange tza raw =
     (if length raw = 0 then None
      else
        (let dates = sortDates (filter (\<lambda>d. \<not> isNaN (getTime d))
                                  (map (\<lambda>d. normalizeDate tza (date d)) raw))
         in Some \<lparr> range_min = element dates 0,
                    range_max = element dates (int (length dates) - 1) \<rparr>))"

text \<open>
  For stating what \<open>availableDateRange\<close> returns: the time values of the records' valid
  normalized dates, in the order of the records.
\<close>

definition validTimes :: "int \<Rightarrow> CampaignData list \<Rightarrow> int list" where
  "validTimes tza raw =
     concat (map (\<lambda>r. case normalizeDate tza (date r) of InvalidDate \<Rightarrow> [] | DateAt t \<Rightarrow> [t]) raw)"

text \<open>What the hook returns on a render, from its state.\<close>

record 'trend hookResult =
  out_rawData :: "CampaignData list"
  out_filteredData :: "CampaignData list"
  out_metrics :: DashboardMetrics
  out_topCreatives :: "AdPerformance list"
  out_campaignTrends :: "'trend list"
  out_loading :: bool
  out_error :: "string option"
  out_dateRange :: "DateRange option"
  out_availableDateRange :: "AvailableDateRange option"

definition useCampaignData ::
  "(AdPerformance \<Rightarrow> 'k::linorder) \<Rightarrow> (CampaignData list \<Rightarrow> Date \<Rightarrow> 'trend list) \<Rightarrow> int \<Rightarrow> hookState
     \<Rightarrow> 'trend hookResult" where
  "useCampaignData rankKey getCampaignTrends tza s =
     (let filtered = filteredData tza (rawData s) (dateRange s)
      in \<lparr> out_rawData = rawData s,
           out_filteredData = filtered,
           out_metrics = metrics filtered,
           out_topCreatives = topCreatives rankKey filtered,
           out_campaignTrends = campaignTrends getCampaignTrends filtered (dateRange s),
           out_loading = loading s,
           out_error = error s,
           out_dateRange = dateRange s,
           out_availableDateRange = availableDateRange tza (rawData s) \<rparr>)"


subsection \<open>The calendar: years and day numbers\<close>

lemma div_succ:
  fixes a k :: int
  assumes k: "0 < k"
  shows "(a + 1) div k = a div k + (if (a + 1) mod k = 0 then 1 else 0)"
proof -
  define q where "q = a div k"
  define r where "r = a mod k"
  have a: "a = k * q + r" unfolding q_def r_def by simp
  have r: "0 \<le> r" "r < k" unfolding r_def using k by simp_all
  show ?thesis
  proof (cases "r + 1 < k")
    case True
    have e: "a + 1 = k * q + (r + 1)" using a by simp
    have "(a + 1) div k = q" using e r True by (intro int_div_pos_eq[of _ _ _ "r + 1"]) auto
    moreover have "(a + 1) mod k = r + 1" using e r True by (intro int_mod_pos_eq[of _ _ q]) auto
    ultimately show ?thesis using r q_def by simp
  next
    case False
    then have rk: "r + 1 = k" using r by simp
    have e: "a + 1 = k * (q + 1) + 0" using a rk by (simp add: algebra_simps)
    have "(a + 1) div k = q + 1" using e k by (intro int_div_pos_eq[of _ _ _ 0]) auto
    moreover have "(a + 1) mod k = 0" using e k by (intro int_mod_pos_eq[of _ _ "q + 1"]) auto
    ultimately show ?thesis using q_def by simp
  qed
qed

lemma leap_mods:
  fixes y :: int
  shows "(y - 1969 + 1) mod 4 = y mod 4" "(y - 1901 + 1) mod 100 = y mod 100"
    "(y - 1601 + 1) mod 400 = y mod 400"
proof -
  have "y - 1969 + 1 = y + 4 * (- 492)" by simp
  then show "(y - 1969 + 1) mod 4 = y mod 4" by (simp only: mod_mult_self2)
  have "y - 1901 + 1 = y + 100 * (- 19)" by simp
  then show "(y - 1901 + 1) mod 100 = y mod 100" by (simp only: mod_mult_self2)
  have "y - 1601 + 1 = y + 400 * (- 4)" by simp
  then show "(y - 1601 + 1) mod 400 = y mod 400" by (simp only: mod_mult_self2)
qed

lemma leap_implies:
  fixes y :: int
  shows "y mod 100 = 0 \<Longrightarrow> y mod 4 = 0" "y mod 400 = 0 \<Longrightarrow> y mod 100 = 0"
proof -
  have "y mod 100 mod 4 = y mod 4" by (rule mod_mod_cancel) simp
  then show "y mod 100 = 0 \<Longrightarrow> y mod 4 = 0" by simp
  have "y mod 400 mod 100 = y mod 100" by (rule mod_mod_cancel) simp
  then show "y mod 400 = 0 \<Longrightarrow> y mod 100 = 0" by simp
qed

lemma DayFromYear_step: "DayFromYear (y + 1) = DayFromYear y + DaysInYear y"
proof -
  have a: "(y + 1 - 1969) div 4 = (y - 1969) div 4 + (if y mod 4 = 0 then 1 else 0)"
    using div_succ[of 4 "y - 1969"] leap_mods(1)[of y] by (simp add: algebra_simps)
  have b: "(y + 1 - 1901) div 100 = (y - 1901) div 100 + (if y mod 100 = 0 then 1 else 0)"
    using div_succ[of 100 "y - 1901"] leap_mods(2)[of y] by (simp add: algebra_simps)
  have c: "(y + 1 - 1601) div 400 = (y - 1601) div 400 + (if y mod 400 = 0 then 1 else 0)"
    using div_succ[of 400 "y - 1601"] leap_mods(3)[of y] by (simp add: algebra_simps)
  show ?thesis
    unfolding DayFromYear_def DaysInYear_def a b c
    using leap_implies[of y] by auto
qed

lemma DaysInYear_bounds: "365 \<le> DaysInYear y" "DaysInYear y \<le> 366"
  unfolding DaysInYear_def by auto

lemma div_bracket:
  fixes a k :: int
  assumes "0 < k"
  shows "k * (a div k) \<le> a" "a < k * (a div k) + k"
proof -
  have "a = k * (a div k) + a mod k" by simp
  moreover have "0 \<le> a mod k" "a mod k < k" using assms by simp_all
  ultimately show "k * (a div k) \<le> a" "a < k * (a div k) + k" by linarith+
qed

lemma DayFromYear_linear_lower:
  fixes y q1 q2 q3 :: int
  assumes "4 * q1 \<le> y - 1969" "y - 1969 < 4 * q1 + 4"
      "100 * q2 \<le> y - 1901" "y - 1901 < 100 * q2 + 100"
      "400 * q3 \<le> y - 1601" "y - 1601 < 400 * q3 + 400"
  shows "146097 * (y - 1970) - 600 \<le> 400 * (365 * (y - 1970) + q1 - q2 + q3)"
  using assms by (smt (verit))

lemma DayFromYear_linear_upper:
  fixes y q1 q2 q3 :: int
  assumes "4 * q1 \<le> y - 1969" "y - 1969 < 4 * q1 + 4"
      "100 * q2 \<le> y - 1901" "y - 1901 < 100 * q2 + 100"
      "400 * q3 \<le> y - 1601" "y - 1601 < 400 * q3 + 400"
  shows "400 * (365 * (y - 1970) + q1 - q2 + q3) \<le> 146097 * (y - 1970) + 600"
  using assms by (smt (verit))

lemma DayFromYear_lower: "146097 * (y - 1970) - 600 \<le> 400 * DayFromYear y"
  unfolding DayFromYear_def
  by (rule DayFromYear_linear_lower) (simp_all only: div_bracket [where k = 4, simplified] div_bracket [where k = 100, simplified] div_bracket [where k = 400, simplified])

lemma DayFromYear_upper: "400 * DayFromYear y \<le> 146097 * (y - 1970) + 600"
  unfolding DayFromYear_def
  by (rule DayFromYear_linear_upper) (simp_all only: div_bracket [where k = 4, simplified] div_bracket [where k = 100, simplified] div_bracket [where k = 400, simplified])

lemma DayFromYear_less: "y < y' \<Longrightarrow> DayFromYear y < DayFromYear y'"
proof (induction "nat (y' - y)" arbitrary: y')
  case 0 then show ?case by simp
next
  case (Suc n)
  show ?case
  proof (cases "y' - 1 = y")
    case True
    then have "y' = y + 1" by simp
    then show ?thesis using DayFromYear_step[of y] DaysInYear_bounds(1)[of y] by simp
  next
    case False
    with Suc have "y < y' - 1" "n = nat (y' - 1 - y)" by auto
    then have "DayFromYear y < DayFromYear (y' - 1)" using Suc(1) by blast
    moreover have "DayFromYear (y' - 1) < DayFromYear y'"
      using DayFromYear_step[of "y' - 1"] DaysInYear_bounds(1)[of "y' - 1"] by simp
    ultimately show ?thesis by linarith
  qed
qed

lemma DayFromYear_mono: "y \<le> y' \<Longrightarrow> DayFromYear y \<le> DayFromYear y'"
  using DayFromYear_less[of y y'] by (cases "y = y'") auto

lemma YearFromDay_bracket:
  "DayFromYear (YearFromDay d) \<le> d" "d < DayFromYear (YearFromDay d + 1)"
proof -
  define y where "y = 1970 + (400 * d) div 146097"
  have e: "146097 * (y - 1970) \<le> 400 * d" "400 * d < 146097 * (y - 1970) + 146097"
    using div_bracket[of 146097 "400 * d"] unfolding y_def by auto
  have lo: "DayFromYear (y - 1) \<le> d"
    using DayFromYear_upper[of "y - 1"] e by (smt (verit))
  have hi: "d < DayFromYear (y + 1 + 1)"
    using DayFromYear_lower[of "y + 1 + 1"] e by (smt (verit))
  have yd: "YearFromDay d = (if d < DayFromYear y then y - 1
         else if DayFromYear (y + 1) \<le> d then y + 1 else y)"
    unfolding YearFromDay_def y_def Let_def by simp
  show "DayFromYear (YearFromDay d) \<le> d" using yd lo by auto
  show "d < DayFromYear (YearFromDay d + 1)"
  proof (cases "d < DayFromYear y")
    case True
    then show ?thesis using yd by simp
  next
    case False
    then show ?thesis using yd hi by (cases "DayFromYear (y + 1) \<le> d") (simp_all only: if_True if_False not_le)
  qed
qed


text \<open>So \<open>YearFromDay\<close> is the year that ECMAScript defines.\<close>

lemma YearFromDay_greatest:
  "DayFromYear (YearFromDay d) \<le> d \<and> (\<forall>y. DayFromYear y \<le> d \<longrightarrow> y \<le> YearFromDay d)"
proof -
  have "y \<le> YearFromDay d" if "DayFromYear y \<le> d" for y
  proof (rule ccontr)
    assume "\<not> y \<le> YearFromDay d"
    then have "YearFromDay d + 1 \<le> y" by simp
    then have "DayFromYear (YearFromDay d + 1) \<le> DayFromYear y" by (rule DayFromYear_mono)
    then show False using YearFromDay_bracket(2)[of d] that by linarith
  qed
  then show ?thesis using YearFromDay_bracket(1)[of d] by blast
qed

subsection \<open>The calendar: months and days of the month\<close>









subsection \<open>Date arithmetic\<close>



















subsection \<open>Splitting and converting digit strings\<close>

lemma split_no_separator: "c \<notin> set xs \<Longrightarrow> split c xs = [xs]"
  by (induction xs) auto

lemma split_at_separator: "c \<notin> set xs \<Longrightarrow> split c (xs @ c # ys) = xs # split c ys"
  by (induction xs) auto

lemma digit_code: "isDecimalDigit c \<longleftrightarrow> 48 \<le> (of_char c :: nat) \<and> (of_char c :: nat) \<le> 57"
  by (simp add: isDecimalDigit_def less_eq_char_def)

lemma digit_not_special:
  assumes "isDecimalDigit c"
  shows "\<not> isStrWhiteSpaceChar c" "c \<noteq> CHR ''x''" "c \<noteq> CHR ''X''" "c \<noteq> CHR ''o''"
    "c \<noteq> CHR ''O''" "c \<noteq> CHR ''b''" "c \<noteq> CHR ''B''" "c \<noteq> CHR ''+''" "c \<noteq> CHR ''-''"
    "c \<noteq> CHR ''I''" "c \<noteq> CHR ''.''" "c \<noteq> CHR ''e''" "c \<noteq> CHR ''E''"
  using assms unfolding digit_code isStrWhiteSpaceChar_def by auto

lemma trimString_digits:
  assumes "list_all isDecimalDigit ds"
  shows "trimString ds = ds"
proof -
  have a: "dropWhile isStrWhiteSpaceChar xs = xs" if "list_all isDecimalDigit xs" for xs
    using that by (cases xs) (auto simp: digit_not_special(1))
  have "list_all isDecimalDigit (rev ds)" using assms by (simp add: list_all_iff)
  then show ?thesis unfolding trimString_def using assms by (simp add: a)
qed

lemma StringToNumber_digits:
  assumes ne: "ds \<noteq> []" and dig: "list_all isDecimalDigit ds"
  shows "StringToNumber ds = Num (of_nat (digitsValue 10 ds))"
proof -
  obtain c r where ds: "ds = c # r" using ne by (cases ds) auto
  have c: "isDecimalDigit c" and r: "list_all isDecimalDigit r" using dig by (simp_all add: ds)
  have hd: "r \<noteq> [] \<Longrightarrow> isDecimalDigit (hd r)" using r by (cases r) auto
  have inf: "ds \<noteq> ''Infinity''" using c digit_not_special(10)[of c] by (auto simp: ds)
  have tw: "takeWhile isDecimalDigit ds = ds" "dropWhile isDecimalDigit ds = []"
    using dig by (simp_all add: list_all_iff)
  have u: "unsignedDecimalLiteral ds = Num (of_nat (digitsValue 10 ds))"
    unfolding unsignedDecimalLiteral_def tw Let_def using inf ne
    by (simp add: exponentPart_def pow10_def)
  have td: "trimString (c # r) = c # r" using trimString_digits[OF dig] by (simp add: ds)
  have nx: "\<not> (r \<noteq> [] \<and> hd r \<in> {CHR ''x'', CHR ''X''})"
    "\<not> (r \<noteq> [] \<and> hd r \<in> {CHR ''o'', CHR ''O''})"
    "\<not> (r \<noteq> [] \<and> hd r \<in> {CHR ''b'', CHR ''B''})"
    using hd digit_not_special(2-7)[of "hd r"] by blast+
  have cs: "c \<noteq> CHR ''+''" "c \<noteq> CHR ''-''" using digit_not_special[OF c] by blast+
  have "StringToNumber ds = unsignedDecimalLiteral ds"
    unfolding ds StringToNumber_def td Let_def list.case
    using nx cs by (simp only: if_False simp_thms)
  then show ?thesis using u by simp
qed

lemma StringToNumber_empty: "StringToNumber [] = Num 0"
  by (simp add: StringToNumber_def trimString_def)

lemma StringToNumber_examples:
  "StringToNumber ''2024'' = Num 2024" "StringToNumber ''01'' = Num 1"
  "StringToNumber ''15'' = Num 15" "StringToNumber ''2024/01/15'' = NaN"
  "StringToNumber ''15T00:00:00'' = NaN"
  "StringToNumber ''not a date'' = NaN"
proof -
  have d: "digitsValue 10 ''2024'' = 2024" "digitsValue 10 ''01'' = 1" "digitsValue 10 ''15'' = 15"
    by (simp_all add: digitsValue_def digitValue_def)
  have a: "list_all isDecimalDigit ''2024''" "list_all isDecimalDigit ''01''"
    "list_all isDecimalDigit ''15''"
    by (simp_all add: isDecimalDigit_def)
  show "StringToNumber ''2024'' = Num 2024" "StringToNumber ''01'' = Num 1"
    "StringToNumber ''15'' = Num 15"
    using StringToNumber_digits[OF _ a(1)] StringToNumber_digits[OF _ a(2)]
      StringToNumber_digits[OF _ a(3)] d by simp_all
  show "StringToNumber ''2024/01/15'' = NaN" "StringToNumber ''15T00:00:00'' = NaN"
    "StringToNumber ''not a date'' = NaN"
    by (simp_all add: StringToNumber_def trimString_def isStrWhiteSpaceChar_def
        unsignedDecimalLiteral_def isDecimalDigit_def exponentPart_def)
qed

text \<open>Some literals that \<open>Number\<close> accepts or rejects.\<close>

lemma StringToNumber_literals:
  "StringToNumber '' 12 '' = Num 12"
  "StringToNumber ''1e3'' = Num 1000"
  "StringToNumber ''-5.25'' = Num (- 21 / 4)"
  "StringToNumber ''0x1F'' = Num 31"
  "StringToNumber ''Infinity'' = PosInfinity"
  "StringToNumber ''.'' = NaN"
  "StringToNumber ''12px'' = NaN"
  by (simp_all add: StringToNumber_def trimString_def isStrWhiteSpaceChar_def
      unsignedDecimalLiteral_def isDecimalDigit_def exponentPart_def nonDecimalLiteral_def
      isDigits_def digitsValue_def digitValue_def pow10_def)

subsection \<open>Components that are not numbers\<close>

lemma newDate_ymd_NaN:
  "isNaN y \<or> isNaN m \<or> isNaN d \<Longrightarrow> newDate_ymd tza y m d = InvalidDate"
  by (cases y; cases m; cases d)
    (simp_all add: newDate_ymd_def MakeDay_def MakeDate_def TimeClip_def Let_def)

lemma num_sub_NaN: "isNaN a \<Longrightarrow> isNaN (num_sub a b)"
  by (cases a) (simp_all add: num_sub_def)

lemma component_missing: "length parts \<le> i \<Longrightarrow> isNaN (component parts i)"
  by (simp add: component_def)

lemma parseLocalDate_NaN_component:
  assumes "length (split CHR ''-'' s) < 3 \<or>
           (\<exists>i<3. isNaN (StringToNumber (split CHR ''-'' s ! i)))"
  shows "parseLocalDate tza s = InvalidDate"
proof -
  let ?parts = "map StringToNumber (split CHR ''-'' s)"
  have "\<exists>i<3. isNaN (component ?parts i)"
  proof (cases "length (split CHR ''-'' s) < 3")
    case True
    then have "isNaN (component ?parts 2)" by (intro component_missing) simp
    then show ?thesis by (intro exI[of _ 2]) simp
  next
    case False
    then obtain i where i: "i < 3" "isNaN (StringToNumber (split CHR ''-'' s ! i))"
      using assms by auto
    then have "component ?parts i = StringToNumber (split CHR ''-'' s ! i)"
      using False by (simp add: component_def)
    then show ?thesis using i by auto
  qed
  then obtain i where i: "i < 3" "isNaN (component ?parts i)" by auto
  then have "i = 0 \<or> i = 1 \<or> i = 2" by auto
  then have "isNaN (component ?parts 0) \<or> isNaN (num_sub (component ?parts 1) (Num 1)) \<or>
      isNaN (component ?parts 2)"
    using i(2) num_sub_NaN by auto
  then show ?thesis
    unfolding parseLocalDate_def Let_def by (rule newDate_ymd_NaN)
qed

subsection \<open>The normalizer on calendar dates\<close>




lemma dateString_parts:
  assumes "isDateString s"
  shows "s = take 4 s @ CHR ''-'' # take 2 (drop 5 s) @ CHR ''-'' # drop 8 s"
proof -
  have l: "length s = 10" and a: "s ! 4 = CHR ''-''" and b: "s ! 7 = CHR ''-''"
    using assms by (simp_all add: isDateString_def)
  have "s = take 4 s @ drop 4 s" by simp
  moreover have "drop 4 s = s ! 4 # drop 5 s"
    using l by (simp add: Cons_nth_drop_Suc [symmetric])
  moreover have "drop 5 s = take 2 (drop 5 s) @ drop 2 (drop 5 s)"
    by (simp only: append_take_drop_id)
  moreover have "drop 2 (drop 5 s) = s ! 7 # drop 8 s"
    using l by (simp add: Cons_nth_drop_Suc [symmetric])
  ultimately show ?thesis using a b by metis
qed

lemma digits_no_dash: "list_all isDecimalDigit ds \<Longrightarrow> CHR ''-'' \<notin> set ds"
  using digit_not_special(9) by (auto simp: list_all_iff)

lemma split_dateString:
  assumes "isDateString s"
  shows "split CHR ''-'' s = [take 4 s, take 2 (drop 5 s), drop 8 s]"
proof -
  have d: "CHR ''-'' \<notin> set (take 4 s)" "CHR ''-'' \<notin> set (take 2 (drop 5 s))"
    "CHR ''-'' \<notin> set (drop 8 s)"
    using assms by (simp_all add: isDateString_def digits_no_dash)
  have "split CHR ''-'' (take 4 s @ CHR ''-'' # take 2 (drop 5 s) @ CHR ''-'' # drop 8 s) =
      [take 4 s, take 2 (drop 5 s), drop 8 s]"
    by (simp only: split_at_separator[OF d(1)] split_at_separator[OF d(2)]
        split_no_separator[OF d(3)])
  then show ?thesis using dateString_parts[OF assms] by simp
qed

lemma components_dateString:
  assumes "isDateString s"
  shows "map StringToNumber (split CHR ''-'' s) =
    [Num (of_int (yearOf s)), Num (of_int (monthOf s)), Num (of_int (dayOf s))]"
proof -
  have l: "length s = 10" using assms by (simp add: isDateString_def)
  have d: "list_all isDecimalDigit (take 4 s)" "list_all isDecimalDigit (take 2 (drop 5 s))"
    "list_all isDecimalDigit (drop 8 s)"
    using assms by (simp_all add: isDateString_def)
  have ne: "take 4 s \<noteq> []" "take 2 (drop 5 s) \<noteq> []" "drop 8 s \<noteq> []"
    using l by auto
  have n: "StringToNumber (take 4 s) = Num (of_nat (digitsValue 10 (take 4 s)))"
    "StringToNumber (take 2 (drop 5 s)) = Num (of_nat (digitsValue 10 (take 2 (drop 5 s))))"
    "StringToNumber (drop 8 s) = Num (of_nat (digitsValue 10 (drop 8 s)))"
    by (rule StringToNumber_digits[OF ne(1) d(1)], rule StringToNumber_digits[OF ne(2) d(2)],
        rule StringToNumber_digits[OF ne(3) d(3)])
  show ?thesis
    unfolding split_dateString[OF assms] yearOf_def monthOf_def dayOf_def
    by (simp add: n)
qed



lemma parseLocalDate_dateString:
  assumes "isDateString s"
  shows "parseLocalDate tza s =
    newDate_ymd tza (Num (of_int (yearOf s))) (Num (of_int (monthOf s - 1))) (Num (of_int (dayOf s)))"
  unfolding parseLocalDate_def components_dateString[OF assms] Let_def
  by (simp add: component_def num_sub_def)








subsection \<open>The initial date range\<close>





subsection \<open>The two ratios of the metrics\<close>








subsection \<open>Failure handling of \<open>fetchData\<close>\<close>

text \<open>
  Claim C4.  When the retrieval fails (\<open>fetch\<close> throws, the response is not ok, or
  reading its text throws) or the parser throws, \<open>fetchData\<close> ends in the state it
  started in, except that the error field holds the message (the thrown Error's message,
  \<open>Failed to fetch data\<close> for a response that is not ok, \<open>Unknown error\<close> for a thrown
  value that is no Error) and the loading flag is cleared: the record store is untouched.
  The loading flag is cleared whenever \<open>fetchData\<close> completes, failed or not.
\<close>

theorem fetchData_failure_keeps_store:
  "(\<forall>err. fetchData parseCSV tza now (Inl err) s0 =
            s0\<lparr>loading := False, error := Some (errorMessage err)\<rparr>) \<and>
   (\<forall>resp. \<not> ok resp \<longrightarrow>
      fetchData parseCSV tza now (Inr resp) s0 =
        s0\<lparr>loading := False, error := Some ''Failed to fetch data''\<rparr>) \<and>
   (\<forall>resp err. ok resp \<and> body_text resp = Inl err \<longrightarrow>
      fetchData parseCSV tza now (Inr resp) s0 =
        s0\<lparr>loading := False, error := Some (errorMessage err)\<rparr>) \<and>
   (\<forall>resp txt err. ok resp \<and> body_text resp = Inr txt \<and> parseCSV txt = Inl err \<longrightarrow>
      fetchData parseCSV tza now (Inr resp) s0 =
        s0\<lparr>loading := False, error := Some (errorMessage err)\<rparr>) \<and>
   loading (fetchData parseCSV tza now fetched s0) = False"
  by (auto simp: fetchData_def tryBody_def Let_def split: sum.splits)

theorem fetchData_failure_keeps_store_witness:
  "fetchData (\<lambda>txt. Inl (ErrorObject ''Malformed CSV'')) 0 0 (Inl OtherValue) initialState =
     initialState\<lparr>loading := False, error := Some ''Unknown error''\<rparr> \<and>
   fetchData (\<lambda>txt. Inl (ErrorObject ''Malformed CSV'')) 0 0
       (Inr \<lparr>ok = False, body_text = Inr ''date,spend''\<rparr>) initialState =
     initialState\<lparr>loading := False, error := Some ''Failed to fetch data''\<rparr> \<and>
   fetchData (\<lambda>txt. Inl (ErrorObject ''Malformed CSV'')) 0 0
       (Inr \<lparr>ok = True, body_text = Inl (ErrorObject ''body stream'')\<rparr>) initialState =
     initialState\<lparr>loading := False, error := Some ''body stream''\<rparr> \<and>
   fetchData (\<lambda>txt. Inl (ErrorObject ''Malformed CSV'')) 0 0
       (Inr \<lparr>ok = True, body_text = Inr ''date,spend''\<rparr>) initialState =
     initialState\<lparr>loading := False, error := Some ''Malformed CSV''\<rparr> \<and>
   rawData (fetchData (\<lambda>txt. Inl (ErrorObject ''Malformed CSV'')) 0 0
       (Inr \<lparr>ok = True, body_text = Inr ''date,spend''\<rparr>) initialState) = []"
  using fetchData_failure_keeps_store
    [of "\<lambda>txt. Inl (ErrorObject ''Malformed CSV'')" 0 0 initialState "Inl OtherValue"]
  by (simp add: initialState_def)

subsection \<open>The available date range\<close>

lemma valid_dates_of_records:
  "filter (\<lambda>d. \<not> isNaN (getTime d)) (map (\<lambda>r. normalizeDate tza (date r)) raw) =
     map DateAt (validTimes tza raw)"
proof (induction raw)
  case Nil
  then show ?case by (simp add: validTimes_def)
next
  case (Cons r raw)
  then show ?case
    by (cases "normalizeDate tza (date r)") (simp_all add: validTimes_def)
qed

lemma insertDate_insort: "insertDate (DateAt a) (map DateAt bs) = map DateAt (insort a bs)"
  by (induction bs) (auto simp: compareTime_def num_sub_def)

lemma sortDates_sort: "sortDates (map DateAt ts) = map DateAt (sort ts)"
  unfolding sortDates_def sort_key_def
  by (induction ts) (simp_all add: insertDate_insort)

lemma sorted_hd_is_Min:
  fixes xs :: "int list"
  assumes "sorted xs" "xs \<noteq> []"
  shows "hd xs = Min (set xs)"
proof -
  obtain x ys where xs: "xs = x # ys" using assms(2) by (cases xs) auto
  have "Min (set xs) = x"
    using assms(1) unfolding xs by (intro Min_eqI) auto
  then show ?thesis by (simp add: xs)
qed

lemma sorted_last_is_Max:
  fixes xs :: "int list"
  assumes "sorted xs" "xs \<noteq> []"
  shows "last xs = Max (set xs)"
proof -
  have "\<forall>y \<in> set xs. y \<le> last xs"
    using assms
  proof (induction xs)
    case Nil
    then show ?case by simp
  next
    case (Cons x xs)
    then show ?case by (cases xs) auto
  qed
  then have "Max (set xs) = last xs"
    using assms(2) by (intro Max_eqI) auto
  then show ?thesis by simp
qed

lemma element_first: "xs \<noteq> [] \<Longrightarrow> element xs 0 = Some (hd xs)"
  by (cases xs) (simp_all add: element_def)

lemma element_last: "xs \<noteq> [] \<Longrightarrow> element xs (int (length xs) - 1) = Some (last xs)"
proof -
  assume ne: "xs \<noteq> []"
  then have "nat (int (length xs) - 1) = length xs - 1" by simp
  moreover have "0 \<le> int (length xs) - 1" using ne by (cases xs) auto
  ultimately show ?thesis using ne by (simp add: element_def last_conv_nth)
qed

lemma element_empty: "element [] i = None"
  by (simp add: element_def)

lemma availableDateRange_sorted:
  "raw \<noteq> [] \<Longrightarrow>
   availableDateRange tza raw =
     Some \<lparr> range_min = element (map DateAt (sort (validTimes tza raw))) 0,
            range_max = element (map DateAt (sort (validTimes tza raw)))
                          (int (length (validTimes tza raw)) - 1) \<rparr>"
  by (simp add: availableDateRange_def valid_dates_of_records sortDates_sort Let_def)

text \<open>
  Claim C5, as amended.  The available date range is null exactly when the record store is
  empty.  For every record set in which at least one record has a valid normalized date
  (a string through \<open>parseLocalDate\<close>, a Date through \<open>new Date\<close>), it is the pair
  \<open>{min, max}\<close> of the earliest and the latest of the records' valid normalized dates,
  so \<open>min \<le> max\<close>; records whose date is invalid are left out of the extremes.
\<close>

theorem availableDateRange_extremes:
  "(availableDateRange tza raw = None \<longleftrightarrow> raw = []) \<and>
   (validTimes tza raw \<noteq> [] \<longrightarrow>
      availableDateRange tza raw =
        Some \<lparr> range_min = Some (DateAt (Min (set (validTimes tza raw)))),
               range_max = Some (DateAt (Max (set (validTimes tza raw)))) \<rparr> \<and>
      Min (set (validTimes tza raw)) \<le> Max (set (validTimes tza raw)))"
proof -
  have none: "availableDateRange tza raw = None \<longleftrightarrow> raw = []"
    by (simp add: availableDateRange_def Let_def)
  have some: "availableDateRange tza raw =
        Some \<lparr> range_min = Some (DateAt (Min (set (validTimes tza raw)))),
               range_max = Some (DateAt (Max (set (validTimes tza raw)))) \<rparr> \<and>
      Min (set (validTimes tza raw)) \<le> Max (set (validTimes tza raw))"
    if ne: "validTimes tza raw \<noteq> []"
  proof -
    let ?ts = "validTimes tza raw"
    have raw: "raw \<noteq> []" using ne by (auto simp: validTimes_def)
    have "length (sort ?ts) = length ?ts" by simp
    then have s1: "sort ?ts \<noteq> []" using ne by (metis length_0_conv)
    have s: "sort ?ts \<noteq> []" "sorted (sort ?ts)" "set (sort ?ts) = set ?ts"
      using s1 by simp_all
    have m: "map DateAt (sort ?ts) \<noteq> []" using s(1) by simp
    have "element (map DateAt (sort ?ts)) 0 = Some (DateAt (hd (sort ?ts)))"
      using element_first[OF m] s(1) by (simp add: hd_map)
    then have mn: "element (map DateAt (sort ?ts)) 0 = Some (DateAt (Min (set ?ts)))"
      using sorted_hd_is_Min[OF s(2) s(1)] s(3) by simp
    have "element (map DateAt (sort ?ts)) (int (length (map DateAt (sort ?ts))) - 1) =
        Some (DateAt (last (sort ?ts)))"
      using element_last[OF m] s(1) by (simp add: last_map)
    then have mx: "element (map DateAt (sort ?ts)) (int (length ?ts) - 1) =
        Some (DateAt (Max (set ?ts)))"
      using sorted_last_is_Max[OF s(2) s(1)] s(3) by simp
    have "Min (set ?ts) \<le> Max (set ?ts)"
      using ne by (simp add: Min_le_iff)
    then show ?thesis
      using availableDateRange_sorted[OF raw, of tza] mn mx by simp
  qed
  show ?thesis using none some by blast
qed

theorem availableDateRange_extremes_witness:
  "validTimes (- 10800000)
     [\<lparr>date = DateString ''2024-02-04'', spend = Num 50, conversions = Num 0, reach = Num 0,
        impressions = Num 500, engagement = Num 10, creativeId = ''b'', campaign = ''c''\<rparr>,
      \<lparr>date = DateString ''not a date'', spend = Num 1, conversions = Num 0, reach = Num 0,
        impressions = Num 0, engagement = Num 0, creativeId = ''b'', campaign = ''c''\<rparr>,
      \<lparr>date = DateObject (DateAt 1706497200000), spend = Num 100, conversions = Num 2,
        reach = Num 0, impressions = Num 1000, engagement = Num 50, creativeId = ''a'',
        campaign = ''c''\<rparr>] = [1707015600000, 1706497200000] \<and>
   availableDateRange (- 10800000)
     [\<lparr>date = DateString ''2024-02-04'', spend = Num 50, conversions = Num 0, reach = Num 0,
        impressions = Num 500, engagement = Num 10, creativeId = ''b'', campaign = ''c''\<rparr>,
      \<lparr>date = DateString ''not a date'', spend = Num 1, conversions = Num 0, reach = Num 0,
        impressions = Num 0, engagement = Num 0, creativeId = ''b'', campaign = ''c''\<rparr>,
      \<lparr>date = DateObject (DateAt 1706497200000), spend = Num 100, conversions = Num 2,
        reach = Num 0, impressions = Num 1000, engagement = Num 50, creativeId = ''a'',
        campaign = ''c''\<rparr>] =
     Some \<lparr>range_min = Some (DateAt 1706497200000), range_max = Some (DateAt 1707015600000)\<rparr> \<and>
   availableDateRange (- 10800000) [] = None"
proof -
  let ?raw = "[\<lparr>date = DateString ''2024-02-04'', spend = Num 50, conversions = Num 0, reach = Num 0,
        impressions = Num 500, engagement = Num 10, creativeId = ''b'', campaign = ''c''\<rparr>,
      \<lparr>date = DateString ''not a date'', spend = Num 1, conversions = Num 0, reach = Num 0,
        impressions = Num 0, engagement = Num 0, creativeId = ''b'', campaign = ''c''\<rparr>,
      \<lparr>date = DateObject (DateAt 1706497200000), spend = Num 100, conversions = Num 2,
        reach = Num 0, impressions = Num 1000, engagement = Num 50, creativeId = ''a'',
        campaign = ''c''\<rparr>]"
  have i: "isDateString ''2024-02-04''"
    by (simp add: isDateString_def isDecimalDigit_def)
  have c: "yearOf ''2024-02-04'' = 2024" "monthOf ''2024-02-04'' = 2" "dayOf ''2024-02-04'' = 4"
    by (simp_all add: yearOf_def monthOf_def dayOf_def digitsValue_def digitValue_def)
  have n: "newDate_ymd (- 10800000) (Num 2024) (Num 1) (Num 4) = DateAt 1707015600000"
    by code_simp
  have p: "parseLocalDate (- 10800000) ''2024-02-04'' = DateAt 1707015600000"
    unfolding parseLocalDate_dateString[OF i] c using n by simp
  have "length (split CHR ''-'' ''not a date'') < 3" by simp
  then have q: "parseLocalDate (- 10800000) ''not a date'' = InvalidDate"
    by (intro parseLocalDate_NaN_component disjI1)
  have v: "validTimes (- 10800000) ?raw = [1707015600000, 1706497200000]"
    by (simp add: validTimes_def normalizeDate_def p q TimeClip_def)
  show ?thesis
    using availableDateRange_extremes [of "- 10800000" ?raw]
      availableDateRange_extremes [of "- 10800000" "[]"]
    unfolding v by simp
qed

text \<open>
  A record set that is not empty but holds no valid date: the result is not null, and
  its \<open>min\<close> and \<open>max\<close> are both \<open>undefined\<close>, so it is no pair with \<open>min \<le> max\<close>.
\<close>

theorem availableDateRange_no_valid_date_counterexample:
  "[\<lparr>date = DateString ''not a date'', spend = Num 1, conversions = Num 0, reach = Num 0,
      impressions = Num 0, engagement = Num 0, creativeId = ''b'', campaign = ''c''\<rparr>] \<noteq> [] \<and>
   availableDateRange 0
     [\<lparr>date = DateString ''not a date'', spend = Num 1, conversions = Num 0, reach = Num 0,
        impressions = Num 0, engagement = Num 0, creativeId = ''b'', campaign = ''c''\<rparr>] =
     Some \<lparr>range_min = None, range_max = None\<rparr>"
proof -
  have "length (split CHR ''-'' ''not a date'') < 3" by simp
  then have q: "parseLocalDate 0 ''not a date'' = InvalidDate"
    by (intro parseLocalDate_NaN_component disjI1)
  show ?thesis
    by (simp add: availableDateRange_def normalizeDate_def q sortDates_def element_def)
qed

subsection \<open>Strings that are not dates\<close>

lemma availableDateRange_drops_invalid:
  assumes "normalizeDate tza (date r) = InvalidDate" "raw1 @ raw2 \<noteq> []"
  shows "availableDateRange tza (raw1 @ r # raw2) = availableDateRange tza (raw1 @ raw2)"
  using assms by (simp add: availableDateRange_def Let_def)

text \<open>
  Claim C6, as amended.  For every date string that has fewer than three components
  between its \<open>-\<close> separators, or one of whose first three components \<open>Number\<close> turns
  into NaN, the normalizer returns an invalid date, and a record carrying such a date is
  left out of the available date range: the range of a record set is the same with and
  without that record.  (An empty component is the number 0 and components after the
  third are ignored, so strings such as \<open>--\<close>, \<open>2024-01-\<close> and \<open>2024-01-15-77\<close>
  are not among these.)
\<close>

theorem parseLocalDate_rejects_NaN_component:
  assumes "length (split CHR ''-'' s) < 3 \<or>
           (\<exists>i<3. isNaN (StringToNumber (split CHR ''-'' s ! i)))"
  shows "parseLocalDate tza s = InvalidDate \<and>
         (raw1 @ raw2 \<noteq> [] \<longrightarrow>
            availableDateRange tza (raw1 @ r\<lparr>date := DateString s\<rparr> # raw2) =
              availableDateRange tza (raw1 @ raw2))"
proof -
  have p: "parseLocalDate tza s = InvalidDate"
    using assms by (rule parseLocalDate_NaN_component)
  then have "normalizeDate tza (date (r\<lparr>date := DateString s\<rparr>)) = InvalidDate"
    by (simp add: normalizeDate_def)
  then show ?thesis using p availableDateRange_drops_invalid by blast
qed

theorem parseLocalDate_rejects_NaN_component_witness:
  "length (split CHR ''-'' ''2024/01/15'') < 3 \<and>
   parseLocalDate (- 10800000) ''2024/01/15'' = InvalidDate \<and>
   isNaN (StringToNumber (split CHR ''-'' ''2024-01-15T00:00:00'' ! 2)) \<and>
   parseLocalDate (- 10800000) ''2024-01-15T00:00:00'' = InvalidDate \<and>
   availableDateRange (- 10800000)
     ([\<lparr>date = DateObject (DateAt 1706497200000), spend = Num 100, conversions = Num 2,
         reach = Num 0, impressions = Num 1000, engagement = Num 50, creativeId = ''a'',
         campaign = ''c''\<rparr>] @
      \<lparr>date = DateObject (DateAt 0), spend = Num 1, conversions = Num 0, reach = Num 0,
        impressions = Num 0, engagement = Num 0, creativeId = ''b'',
        campaign = ''c''\<rparr>\<lparr>date := DateString ''2024/01/15''\<rparr> # []) =
   availableDateRange (- 10800000)
     ([\<lparr>date = DateObject (DateAt 1706497200000), spend = Num 100, conversions = Num 2,
         reach = Num 0, impressions = Num 1000, engagement = Num 50, creativeId = ''a'',
         campaign = ''c''\<rparr>] @ [])"
proof -
  have a: "length (split CHR ''-'' ''2024/01/15'') < 3" by simp
  have b: "isNaN (StringToNumber (split CHR ''-'' ''2024-01-15T00:00:00'' ! 2))"
    by (simp add: StringToNumber_examples)
  then have b': "length (split CHR ''-'' ''2024-01-15T00:00:00'') < 3 \<or>
      (\<exists>i<3. isNaN (StringToNumber (split CHR ''-'' ''2024-01-15T00:00:00'' ! i)))"
    by (intro disjI2 exI[of _ 2]) simp
  show ?thesis
    using a b
      parseLocalDate_rejects_NaN_component [OF disjI1 [OF a], of "- 10800000"
        "[\<lparr>date = DateObject (DateAt 1706497200000), spend = Num 100, conversions = Num 2,
         reach = Num 0, impressions = Num 1000, engagement = Num 50, creativeId = ''a'',
         campaign = ''c''\<rparr>]" "[]"
        "\<lparr>date = DateObject (DateAt 0), spend = Num 1, conversions = Num 0, reach = Num 0,
        impressions = Num 0, engagement = Num 0, creativeId = ''b'', campaign = ''c''\<rparr>"]
      parseLocalDate_rejects_NaN_component [OF b', of "- 10800000" "[]" "[]"]
    by simp
qed

text \<open>
  Strings that do not consist of three numeric components and still give a valid date:
  \<open>--\<close> (three empty components) is 30 November 1899, \<open>2024-01-\<close> (an empty third
  component) is 31 December 2023, \<open>2024-01-15-77\<close> (four components) is 15 January 2024;
  a record with the date \<open>--\<close> sets the available date range.
\<close>

theorem parseLocalDate_accepts_non_dates_counterexample:
  "parseLocalDate 0 ''--'' = DateAt (- 2211753600000) \<and>
   YearFromTime (- 2211753600000) = 1899 \<and> MonthFromTime (- 2211753600000) = 10 \<and>
   DateFromTime (- 2211753600000) = 30 \<and>
   parseLocalDate 0 ''2024-01-'' = DateAt 1703980800000 \<and>
   parseLocalDate 0 ''2024-01-15-77'' = DateAt 1705276800000 \<and>
   availableDateRange 0
     [\<lparr>date = DateString ''--'', spend = Num 1, conversions = Num 0, reach = Num 0,
        impressions = Num 0, engagement = Num 0, creativeId = ''b'', campaign = ''c''\<rparr>] =
     Some \<lparr>range_min = Some (DateAt (- 2211753600000)),
           range_max = Some (DateAt (- 2211753600000))\<rparr>"
proof -
  have s: "split CHR ''-'' ''--'' = ['''', '''', '''']"
    "split CHR ''-'' ''2024-01-'' = [''2024'', ''01'', '''']"
    "split CHR ''-'' ''2024-01-15-77'' = [''2024'', ''01'', ''15'', ''77'']"
    by simp_all
  have n: "newDate_ymd 0 (Num 0) (Num (- 1)) (Num 0) = DateAt (- 2211753600000)"
    "newDate_ymd 0 (Num 2024) (Num 0) (Num 0) = DateAt 1703980800000"
    "newDate_ymd 0 (Num 2024) (Num 0) (Num 15) = DateAt 1705276800000"
    by code_simp+
  have p: "parseLocalDate 0 ''--'' = DateAt (- 2211753600000)"
    "parseLocalDate 0 ''2024-01-'' = DateAt 1703980800000"
    "parseLocalDate 0 ''2024-01-15-77'' = DateAt 1705276800000"
    unfolding parseLocalDate_def s
    by (simp_all add: StringToNumber_examples StringToNumber_empty component_def num_sub_def n)
  have c: "YearFromTime (- 2211753600000) = 1899" "MonthFromTime (- 2211753600000) = 10"
    "DateFromTime (- 2211753600000) = 30"
    by code_simp+
  have "availableDateRange 0
     [\<lparr>date = DateString ''--'', spend = Num 1, conversions = Num 0, reach = Num 0,
        impressions = Num 0, engagement = Num 0, creativeId = ''b'', campaign = ''c''\<rparr>] =
     Some \<lparr>range_min = Some (DateAt (- 2211753600000)),
           range_max = Some (DateAt (- 2211753600000))\<rparr>"
    by (simp add: availableDateRange_def normalizeDate_def p sortDates_def element_def)
  then show ?thesis using p c by simp
qed

subsection \<open>The available range does not depend on the selected range\<close>



subsection \<open>The trend series\<close>

lemma campaignTrends_of_hook:
  "out_campaignTrends (useCampaignData rankKey getCampaignTrends tza s) =
     (case dateRange s of
        None \<Rightarrow> []
      | Some r \<Rightarrow>
          getCampaignTrends (filterByDateRange tza (rawData s) (range_from r) (range_to r))
            (range_to r))"
  by (simp add: useCampaignData_def campaignTrends_def filteredData_def Let_def
      split: option.splits)




subsection \<open>The top creatives\<close>

lemma ranksBefore_total: "ranksBefore k a b \<or> ranksBefore k b a"
  unfolding ranksBefore_def by auto

lemma ranksBefore_trans: "ranksBefore k a b \<Longrightarrow> ranksBefore k b c \<Longrightarrow> ranksBefore k a c"
  unfolding ranksBefore_def by auto

lemma set_insertRanked: "set (insertRanked k a bs) = insert a (set bs)"
  by (induction bs) auto

lemma length_insertRanked: "length (insertRanked k a bs) = Suc (length bs)"
  by (induction bs) auto

lemma sorted_insertRanked:
  "sorted_wrt (ranksBefore k) bs \<Longrightarrow> sorted_wrt (ranksBefore k) (insertRanked k a bs)"
proof (induction bs)
  case Nil
  then show ?case by simp
next
  case (Cons b bs)
  show ?case
  proof (cases "ranksBefore k a b")
    case True
    then have "\<forall>x \<in> set bs. ranksBefore k a x"
      using Cons.prems ranksBefore_trans by fastforce
    then show ?thesis using True Cons.prems by simp
  next
    case False
    then have "ranksBefore k b a" using ranksBefore_total by blast
    then show ?thesis using False Cons by (simp add: set_insertRanked)
  qed
qed

lemma set_sortRanked: "set (sortRanked k as) = set as"
  unfolding sortRanked_def by (induction as) (simp_all add: set_insertRanked)

lemma length_sortRanked: "length (sortRanked k as) = length as"
  unfolding sortRanked_def by (induction as) (simp_all add: length_insertRanked)

lemma sorted_sortRanked: "sorted_wrt (ranksBefore k) (sortRanked k as)"
  unfolding sortRanked_def by (induction as) (simp_all add: sorted_insertRanked)

lemma map_adId_insertRanked:
  "set (map adId (insertRanked k a bs)) = insert (adId a) (set (map adId bs))"
  by (simp add: set_insertRanked)

lemma distinct_adId_insertRanked:
  "distinct (map adId (insertRanked k a bs)) \<longleftrightarrow> adId a \<notin> adId ` set bs \<and> distinct (map adId bs)"
  by (induction bs) (auto simp: set_insertRanked)

lemma distinct_adId_sortRanked:
  "distinct (map adId as) \<Longrightarrow> distinct (map adId (sortRanked k as))"
  unfolding sortRanked_def
proof (induction as)
  case Nil
  then show ?case by simp
next
  case (Cons a as)
  have "set (foldr (insertRanked k) as []) = set as"
    using set_sortRanked[of k as] by (simp add: sortRanked_def)
  then show ?case using Cons by (simp add: distinct_adId_insertRanked)
qed

lemma adId_addToAd: "adId (addToAd a r) = adId a"
  by (simp add: addToAd_def)

lemma adId_newAd: "adId (newAd r) = creativeId r"
  by (simp add: newAd_def)

lemma ids_addRecord: "adId ` set (addRecord r as) = insert (creativeId r) (adId ` set as)"
  by (induction as) (auto simp: adId_addToAd adId_newAd)

lemma distinct_addRecord:
  "distinct (map adId as) \<Longrightarrow> distinct (map adId (addRecord r as))"
proof (induction as)
  case Nil
  then show ?case by simp
next
  case (Cons a as)
  show ?case
  proof (cases "adId a = creativeId r")
    case True
    then show ?thesis using Cons.prems by (simp add: adId_addToAd)
  next
    case False
    have "adId a \<notin> adId ` set (addRecord r as)"
      using False Cons.prems by (simp add: ids_addRecord)
    then show ?thesis using False Cons by simp
  qed
qed

lemma foldl_addRecord:
  "distinct (map adId acc) \<Longrightarrow>
   distinct (map adId (foldl (\<lambda>acc r. addRecord r acc) acc rs)) \<and>
   adId ` set (foldl (\<lambda>acc r. addRecord r acc) acc rs) = adId ` set acc \<union> creativeId ` set rs"
proof (induction rs arbitrary: acc)
  case Nil
  then show ?case by simp
next
  case (Cons r rs)
  have d: "distinct (map adId (addRecord r acc))" using Cons.prems by (rule distinct_addRecord)
  show ?case using Cons.IH[OF d] by (auto simp: ids_addRecord)
qed

lemma groupByCreative_ids:
  "distinct (map adId (groupByCreative rs))"
  "adId ` set (groupByCreative rs) = creativeId ` set rs"
  using foldl_addRecord[of "[]" rs] by (simp_all add: groupByCreative_def)

lemma length_groupByCreative: "length (groupByCreative rs) = card (creativeId ` set rs)"
proof -
  have "length (groupByCreative rs) = length (map adId (groupByCreative rs))" by simp
  also have "\<dots> = card (set (map adId (groupByCreative rs)))"
    using groupByCreative_ids(1)[of rs] by (simp only: distinct_card)
  also have "\<dots> = card (creativeId ` set rs)"
    using groupByCreative_ids(2)[of rs] by simp
  finally show ?thesis .
qed

lemma strict_rank_order:
  assumes "sorted_wrt (ranksBefore k) as" "distinct (map adId as)"
  shows "sorted_wrt (\<lambda>a b. k a > k b \<or> (k a = k b \<and> adId a < adId b)) as"
  using assms
proof (induction as)
  case Nil
  then show ?case by simp
next
  case (Cons a as)
  have "k a > k b \<or> (k a = k b \<and> adId a < adId b)" if "b \<in> set as" for b
  proof -
    have "ranksBefore k a b" using Cons.prems(1) that by simp
    moreover have "adId a \<noteq> adId b" using Cons.prems(2) that by auto
    ultimately show ?thesis unfolding ranksBefore_def by auto
  qed
  then show ?case using Cons by simp
qed

text \<open>
  Claim C9.  For every filtered record list and every ranking key, the top-creatives view
  (the ranker called with 6) has at most 6 entries and exactly the smaller of 6 and the
  number of distinct creatives in the list; every entry is a creative of the list, no
  creative appears twice, and the entries stand in descending order of the ranking key,
  entries with equal keys in ascending order of their identifier.  No two entries are
  equal in that order, so it leaves no freedom: the output sequence is determined by the
  input.
\<close>

theorem topCreatives_ranked:
  "length (topCreatives rankKey filtered) \<le> 6 \<and>
   length (topCreatives rankKey filtered) = min 6 (card (creativeId ` set filtered)) \<and>
   sorted_wrt (\<lambda>a b. rankKey a > rankKey b \<or> (rankKey a = rankKey b \<and> adId a < adId b))
     (topCreatives rankKey filtered) \<and>
   distinct (map adId (topCreatives rankKey filtered)) \<and>
   adId ` set (topCreatives rankKey filtered) \<subseteq> creativeId ` set filtered"
proof -
  let ?g = "groupByCreative filtered"
  let ?s = "sortRanked rankKey ?g"
  have len: "length ?s = card (creativeId ` set filtered)"
    by (simp add: length_sortRanked length_groupByCreative)
  have d: "distinct (map adId ?s)"
    using groupByCreative_ids(1) by (rule distinct_adId_sortRanked)
  have "sorted_wrt (\<lambda>a b. rankKey a > rankKey b \<or> (rankKey a = rankKey b \<and> adId a < adId b)) ?s"
    using sorted_sortRanked d by (rule strict_rank_order)
  then have so: "sorted_wrt (\<lambda>a b. rankKey a > rankKey b \<or> (rankKey a = rankKey b \<and> adId a < adId b))
      (take 6 ?s)"
    by (rule sorted_wrt_take)
  have dt: "distinct (map adId (take 6 ?s))"
    using d by (simp add: take_map [symmetric])
  have "set (take 6 ?s) \<subseteq> set ?g"
    using set_take_subset[of 6 ?s] by (simp add: set_sortRanked)
  then have sub: "adId ` set (take 6 ?s) \<subseteq> creativeId ` set filtered"
    using groupByCreative_ids(2)[of filtered] by blast
  show ?thesis
    unfolding topCreatives_def getTopCreatives_def
    using len so dt sub by (simp add: min_def)
qed

theorem topCreatives_ranked_witness:
  "topCreatives (\<lambda>a. case adConversions a of Num q \<Rightarrow> q | _ \<Rightarrow> 0)
     [\<lparr>date = DateString ''2024-01-29'', spend = Num 100, conversions = Num 2, reach = Num 10,
        impressions = Num 1000, engagement = Num 50, creativeId = ''a'', campaign = ''c''\<rparr>,
      \<lparr>date = DateString ''2024-01-30'', spend = Num 50, conversions = Num 5, reach = Num 20,
        impressions = Num 500, engagement = Num 10, creativeId = ''b'', campaign = ''c''\<rparr>,
      \<lparr>date = DateString ''2024-01-31'', spend = Num 25, conversions = Num 1, reach = Num 30,
        impressions = Num 100, engagement = Num 5, creativeId = ''a'', campaign = ''c''\<rparr>] =
     [\<lparr>adId = ''b'', adSpend = Num 50, adConversions = Num 5, adReach = Num 20,
        adImpressions = Num 500, adEngagement = Num 10\<rparr>,
      \<lparr>adId = ''a'', adSpend = Num 125, adConversions = Num 3, adReach = Num 40,
        adImpressions = Num 1100, adEngagement = Num 55\<rparr>] \<and>
   length (topCreatives (\<lambda>a. case adConversions a of Num q \<Rightarrow> q | _ \<Rightarrow> 0)
     [\<lparr>date = DateString ''2024-01-29'', spend = Num 100, conversions = Num 2, reach = Num 10,
        impressions = Num 1000, engagement = Num 50, creativeId = ''a'', campaign = ''c''\<rparr>,
      \<lparr>date = DateString ''2024-01-30'', spend = Num 50, conversions = Num 5, reach = Num 20,
        impressions = Num 500, engagement = Num 10, creativeId = ''b'', campaign = ''c''\<rparr>,
      \<lparr>date = DateString ''2024-01-31'', spend = Num 25, conversions = Num 1, reach = Num 30,
        impressions = Num 100, engagement = Num 5, creativeId = ''a'', campaign = ''c''\<rparr>]) =
     min 6 (card {''a'', ''b''})"
proof -
  let ?k = "\<lambda>a. case adConversions a of Num q \<Rightarrow> q | _ \<Rightarrow> (0::rat)"
  let ?rs = "[\<lparr>date = DateString ''2024-01-29'', spend = Num 100, conversions = Num 2, reach = Num 10,
        impressions = Num 1000, engagement = Num 50, creativeId = ''a'', campaign = ''c''\<rparr>,
      \<lparr>date = DateString ''2024-01-30'', spend = Num 50, conversions = Num 5, reach = Num 20,
        impressions = Num 500, engagement = Num 10, creativeId = ''b'', campaign = ''c''\<rparr>,
      \<lparr>date = DateString ''2024-01-31'', spend = Num 25, conversions = Num 1, reach = Num 30,
        impressions = Num 100, engagement = Num 5, creativeId = ''a'', campaign = ''c''\<rparr>]"
  have v: "topCreatives ?k ?rs =
     [\<lparr>adId = ''b'', adSpend = Num 50, adConversions = Num 5, adReach = Num 20,
        adImpressions = Num 500, adEngagement = Num 10\<rparr>,
      \<lparr>adId = ''a'', adSpend = Num 125, adConversions = Num 3, adReach = Num 40,
        adImpressions = Num 1100, adEngagement = Num 55\<rparr>]"
    by (simp add: topCreatives_def getTopCreatives_def groupByCreative_def sortRanked_def
        newAd_def addToAd_def ranksBefore_def)
  have s: "creativeId ` set ?rs = {''a'', ''b''}" by auto
  show ?thesis
    using v conjunct1 [OF conjunct2 [OF topCreatives_ranked [of ?k ?rs]]]
    unfolding s by simp
qed

subsection \<open>Views under an unset date range\<close>

text \<open>
  Claim C10.  Whenever the selected date range is null, the filtered data and the trend
  series that the hook returns are both the empty list, for every record set and whatever
  the trend builder is: the filter and the trend builder are not called.
\<close>

theorem null_range_views_empty:
  assumes "dateRange s = None"
  shows "out_filteredData (useCampaignData rankKey getCampaignTrends tza s) = [] \<and>
         out_campaignTrends (useCampaignData rankKey getCampaignTrends tza s) = []"
  using assms by (simp add: useCampaignData_def filteredData_def campaignTrends_def Let_def)

theorem null_range_views_empty_witness:
  "dateRange initialState = None \<and>
   out_filteredData
     (useCampaignData (\<lambda>a. length (adId a)) (\<lambda>rs d. [d]) 0 initialState) = [] \<and>
   out_campaignTrends
     (useCampaignData (\<lambda>a. length (adId a)) (\<lambda>rs d. [d]) 0 initialState) = []"
proof -
  have h: "dateRange initialState = None" by (simp add: initialState_def)
  show ?thesis
    using h null_range_views_empty [OF h, of "\<lambda>a. length (adId a)" "\<lambda>rs d. [d]" 0] by simp
qed

end
